theory Spec2Isabelle
  imports
    Complex_Main
    "HOL-Library.Word"
    "HOL-Library.Char_ord"
    "HOL-Library.List_Lexorder"
    "HOL-Library.Sublist"
    "HOL-Library.AList"
begin

unbundle bit_operations_syntax

section \<open>The Monitis SDK core: monitis/api.py\<close>

text \<open>
  The module is Python 2. A \<open>str\<close> is a byte string, so it is a \<open>string\<close> here
  (a list of 8-bit \<open>char\<close>s), compared bytewise (\<open>Char_ord\<close>, \<open>List_Lexorder\<close>).
  A dict is an association list with one entry per key; the operations on it are
  \<open>map_of\<close>, \<open>AList.update\<close> and \<open>AList.delete\<close>. Python 2 does not fix the order in
  which a dict is iterated; the lists here keep insertion order, and the statements
  below read a resulting dict through \<open>map_of\<close> only.
  Exceptions are values of type \<open>error\<close>; a function that may raise returns
  \<open>error + 'a\<close>. The debug printing of the module writes to standard output only and
  is left out.
\<close>

subsection \<open>Python values\<close>

datatype pyval = PyNone | PyBool bool | PyInt int | PyStr string

datatype error = MonitisError string | IndexError | TypeError

type_synonym dict = "(string \<times> pyval) list"

definition digit_char :: "nat \<Rightarrow> char" where
  "digit_char n = ''0123456789'' ! n"

fun digits :: "nat \<Rightarrow> string" where
  "digits n = (if n < 10 then [digit_char n] else digits (n div 10) @ [digit_char (n mod 10)])"

declare digits.simps [simp del]

definition str_int :: "int \<Rightarrow> string" where
  "str_int i = (if i < 0 then CHR ''-'' # digits (nat (- i)) else digits (nat i))"

fun str :: "pyval \<Rightarrow> string" where
  "str PyNone = ''None''"
| "str (PyBool b) = (if b then ''True'' else ''False'')"
| "str (PyInt i) = str_int i"
| "str (PyStr s) = s"

fun truthy :: "pyval \<Rightarrow> bool" where
  "truthy PyNone = False"
| "truthy (PyBool b) = b"
| "truthy (PyInt i) = (i \<noteq> 0)"
| "truthy (PyStr s) = (s \<noteq> [])"

text \<open>An optional string argument or attribute: \<open>None\<close> or a \<open>str\<close>.\<close>

fun py_opt :: "string option \<Rightarrow> pyval" where
  "py_opt None = PyNone"
| "py_opt (Some s) = PyStr s"

text \<open>\<open>x or y\<close> where \<open>y\<close> may raise, and where it is a plain string.\<close>

fun py_or :: "string option \<Rightarrow> error + string \<Rightarrow> error + string" where
  "py_or None alt = alt"
| "py_or (Some s) alt = (if s \<noteq> [] then Inr s else alt)"

fun py_or_str :: "string option \<Rightarrow> string \<Rightarrow> string" where
  "py_or_str None alt = alt"
| "py_or_str (Some s) alt = (if s \<noteq> [] then s else alt)"

text \<open>\<open>d.pop(k, default)\<close>: the value and the dict without the key.\<close>

definition dict_pop :: "string \<Rightarrow> pyval \<Rightarrow> dict \<Rightarrow> pyval \<times> dict" where
  "dict_pop k dflt d = (case map_of d k of None \<Rightarrow> (dflt, d) | Some v \<Rightarrow> (v, AList.delete k d))"

text \<open>\<open>d.update(e)\<close>.\<close>

definition dict_update :: "dict \<Rightarrow> dict \<Rightarrow> dict" where
  "dict_update d e = fold (\<lambda>(k, v). AList.update k v) e d"

subsection \<open>camel2under\<close>

text \<open>\<open>islower\<close>, \<open>isupper\<close> and \<open>lower\<close> of a byte string in the C locale.\<close>

definition islower :: "char \<Rightarrow> bool" where
  "islower c = (CHR ''a'' \<le> c \<and> c \<le> CHR ''z'')"

definition isupper :: "char \<Rightarrow> bool" where
  "isupper c = (CHR ''A'' \<le> c \<and> c \<le> CHR ''Z'')"

definition lower_char :: "char \<Rightarrow> char" where
  "lower_char c = (if isupper c then char_of (of_char c + (32::nat)) else c)"

definition lower :: "string \<Rightarrow> string" where
  "lower s = map lower_char s"

text \<open>
  The loop runs over \<open>range(len(word) - 1)\<close>; \<open>word[-1]\<close> raises \<open>IndexError\<close> on the
  empty string.
\<close>

definition camel2under_step :: "string \<Rightarrow> nat \<Rightarrow> string \<Rightarrow> string" where
  "camel2under_step word i result_list =
     (if islower (word ! i) \<and> isupper (word ! (i + 1))
      then result_list @ [word ! i] @ ''_''
      else result_list @ [word ! i])"

definition camel2under :: "string \<Rightarrow> error + string" where
  "camel2under word =
     (let result_list = fold (camel2under_step word) [0..<length word - 1] []
      in if word = [] then Inl IndexError
         else Inr (lower (result_list @ [last word])))"

subsection \<open>validate_kwargs\<close>

text \<open>\<open>required\<close> and \<open>optional\<close> are each a list of API names or a dict from SDK names to API names.\<close>

datatype names = NameList "string list" | NameDict "(string \<times> string) list"

fun words_dict :: "string list \<Rightarrow> (string \<times> string) list \<Rightarrow> error + (string \<times> string) list" where
  "words_dict [] temp = Inr temp"
| "words_dict (word # ws) temp =
     (case camel2under word of
        Inl e \<Rightarrow> Inl e
      | Inr lc \<Rightarrow> words_dict ws (AList.update lc word temp))"

fun names_items :: "names \<Rightarrow> error + (string \<times> string) list" where
  "names_items (NameList ws) = words_dict ws []"
| "names_items (NameDict d) = Inr d"

text \<open>The value looked up under the SDK name \<open>lc\<close>, then under the API name \<open>cc\<close>.\<close>

definition pop_either :: "string \<Rightarrow> string \<Rightarrow> dict \<Rightarrow> pyval \<times> dict" where
  "pop_either lc cc kwargs =
     (case dict_pop lc PyNone kwargs of (v, kwargs1) \<Rightarrow>
        if v = PyNone then dict_pop cc PyNone kwargs1 else (v, kwargs1))"

fun required_loop :: "(string \<times> string) list \<Rightarrow> dict \<Rightarrow> dict \<Rightarrow> error + dict \<times> dict" where
  "required_loop [] kwargs result_kwargs = Inr (kwargs, result_kwargs)"
| "required_loop ((lc, cc) # items) kwargs result_kwargs =
     (case pop_either lc cc kwargs of (v, kwargs') \<Rightarrow>
        if v = PyNone then Inl (MonitisError (lc @ '' is required''))
        else required_loop items kwargs' (AList.update cc v result_kwargs))"

fun optional_loop :: "(string \<times> string) list \<Rightarrow> dict \<Rightarrow> dict \<Rightarrow> dict \<times> dict" where
  "optional_loop [] kwargs result_kwargs = (kwargs, result_kwargs)"
| "optional_loop ((lc, cc) # items) kwargs result_kwargs =
     (case pop_either lc cc kwargs of (v, kwargs') \<Rightarrow>
        if v \<noteq> PyNone then optional_loop items kwargs' (AList.update cc v result_kwargs)
        else optional_loop items kwargs' result_kwargs)"

definition validate_kwargs :: "names \<Rightarrow> names \<Rightarrow> dict \<Rightarrow> error + dict" where
  "validate_kwargs required optional kwargs =
     (case names_items required of
        Inl e \<Rightarrow> Inl e
      | Inr required' \<Rightarrow>
     (case names_items optional of
        Inl e \<Rightarrow> Inl e
      | Inr optional' \<Rightarrow>
     (case required_loop required' kwargs [] of
        Inl e \<Rightarrow> Inl e
      | Inr (kwargs1, result1) \<Rightarrow>
     (case optional_loop optional' kwargs1 result1 of
        (kwargs2, result2) \<Rightarrow> Inr (dict_update result2 kwargs2)))))"

subsection \<open>The library functions: SHA-1, HMAC, base64\<close>

text \<open>
  \<open>hashlib.sha1\<close> (FIPS 180, RFC 3174), \<open>hmac.new(key, msg, sha1).digest()\<close> (RFC 2104,
  block size 64) and \<open>base64.b64encode\<close> (RFC 4648), on byte strings.
\<close>

definition byte_of_word :: "32 word \<Rightarrow> char" where
  "byte_of_word x = char_of (unat x)"

definition word_bytes :: "32 word \<Rightarrow> string" where
  "word_bytes x = [byte_of_word (drop_bit 24 x), byte_of_word (drop_bit 16 x),
                   byte_of_word (drop_bit 8 x), byte_of_word x]"

definition bytes_word :: "string \<Rightarrow> 32 word" where
  "bytes_word bs = foldl (\<lambda>acc c. push_bit 8 acc OR of_char c) 0 bs"

definition length_bytes :: "nat \<Rightarrow> string" where
  "length_bytes n = map (\<lambda>i. char_of (drop_bit (8 * i) n)) [7, 6, 5, 4, 3, 2, 1, 0]"

definition sha1_pad :: "string \<Rightarrow> string" where
  "sha1_pad m = m @ [CHR 0x80]
       @ replicate ((119 - length m mod 64) mod 64) (CHR 0x00)
       @ length_bytes (8 * length m)"

fun chunks :: "nat \<Rightarrow> string \<Rightarrow> string list" where
  "chunks 0 xs = []"
| "chunks (Suc n) xs = (if xs = [] then [] else take 64 xs # chunks n (drop 64 xs))"

definition blocks :: "string \<Rightarrow> string list" where
  "blocks m = chunks (length m) m"

definition block_words :: "string \<Rightarrow> 32 word list" where
  "block_words b = map (\<lambda>i. bytes_word (take 4 (drop (4 * i) b))) [0..<16]"

fun schedule :: "nat \<Rightarrow> 32 word list \<Rightarrow> 32 word list" where
  "schedule 0 ws = ws"
| "schedule (Suc n) ws =
     schedule n (ws @ [word_rotl 1 (ws ! (length ws - 3) XOR ws ! (length ws - 8)
                         XOR ws ! (length ws - 14) XOR ws ! (length ws - 16))])"

type_synonym sha1_state = "32 word \<times> 32 word \<times> 32 word \<times> 32 word \<times> 32 word"

definition sha1_f :: "nat \<Rightarrow> 32 word \<Rightarrow> 32 word \<Rightarrow> 32 word \<Rightarrow> 32 word" where
  "sha1_f t b c d =
     (if t < 20 then (b AND c) OR (NOT b AND d)
      else if t < 40 then b XOR c XOR d
      else if t < 60 then (b AND c) OR (b AND d) OR (c AND d)
      else b XOR c XOR d)"

definition sha1_k :: "nat \<Rightarrow> 32 word" where
  "sha1_k t = (if t < 20 then 0x5A827999 else if t < 40 then 0x6ED9EBA1
               else if t < 60 then 0x8F1BBCDC else 0xCA62C1D6)"

definition sha1_round :: "32 word list \<Rightarrow> nat \<Rightarrow> sha1_state \<Rightarrow> sha1_state" where
  "sha1_round ws t s = (case s of (a, b, c, d, e) \<Rightarrow>
     (word_rotl 5 a + sha1_f t b c d + e + sha1_k t + ws ! t, a, word_rotl 30 b, c, d))"

definition sha1_block :: "sha1_state \<Rightarrow> string \<Rightarrow> sha1_state" where
  "sha1_block h blk =
     (case h of (h0, h1, h2, h3, h4) \<Rightarrow>
      case fold (sha1_round (schedule 64 (block_words blk))) [0..<80] h of
        (a, b, c, d, e) \<Rightarrow> (h0 + a, h1 + b, h2 + c, h3 + d, h4 + e))"

definition sha1_init :: sha1_state where
  "sha1_init = (0x67452301, 0xEFCDAB89, 0x98BADCFE, 0x10325476, 0xC3D2E1F0)"

definition sha1 :: "string \<Rightarrow> string" where
  "sha1 m = (case foldl sha1_block sha1_init (blocks (sha1_pad m)) of
       (h0, h1, h2, h3, h4) \<Rightarrow>
         word_bytes h0 @ word_bytes h1 @ word_bytes h2 @ word_bytes h3 @ word_bytes h4)"

definition xor_byte :: "nat \<Rightarrow> char \<Rightarrow> char" where
  "xor_byte p c = char_of (of_char c XOR p)"

text \<open>A key longer than a block is hashed first; the key is then filled with NUL bytes to a block.\<close>

definition hmac_key :: "string \<Rightarrow> string" where
  "hmac_key key =
     (let key1 = (if length key > 64 then sha1 key else key)
      in key1 @ replicate (64 - length key1) (CHR 0x00))"

definition hmac_sha1 :: "string \<Rightarrow> string \<Rightarrow> string" where
  "hmac_sha1 key msg =
     sha1 (map (xor_byte 0x5C) (hmac_key key) @ sha1 (map (xor_byte 0x36) (hmac_key key) @ msg))"

definition b64_alphabet :: string where
  "b64_alphabet = ''ABCDEFGHIJKLMNOPQRSTUVWXYZabcdefghijklmnopqrstuvwxyz0123456789+/''"

definition b64_char :: "nat \<Rightarrow> char" where
  "b64_char n = b64_alphabet ! (n mod 64)"

definition b64_group :: "nat \<Rightarrow> string" where
  "b64_group n = [b64_char (n div 262144), b64_char (n div 4096), b64_char (n div 64), b64_char n]"

fun b64encode :: "string \<Rightarrow> string" where
  "b64encode (a # b # c # bs) =
     b64_group (of_char a * 65536 + of_char b * 256 + of_char c) @ b64encode bs"
| "b64encode [a, b] = take 3 (b64_group (of_char a * 65536 + of_char b * 256)) @ ''=''"
| "b64encode [a] = take 2 (b64_group (of_char a * 65536)) @ ''==''"
| "b64encode [] = []"

subsection \<open>The process: class attributes, environment, clock, network\<close>

record datetime =
  dt_year :: nat
  dt_month :: nat
  dt_day :: nat
  dt_hour :: nat
  dt_minute :: nat
  dt_second :: nat
  dt_microsecond :: nat

text \<open>
  A request as handed to \<open>urlopen\<close>: the URL and the items that \<open>urlencode\<close> serialises,
  into the query string of a GET and into the body of a POST.
\<close>

datatype request = GET string dict | POST string dict

text \<open>
  \<open>Monitis_sandbox\<close>, \<open>Monitis_apikey\<close> and \<open>Monitis_secretkey\<close> are the class attributes
  of \<open>Monitis\<close>; \<open>environ\<close> is \<open>os.environ\<close>; \<open>utcnow\<close> is \<open>datetime.utcnow()\<close>, \<open>time_now\<close>
  is \<open>time()\<close> and \<open>mktime\<close> is \<open>time.mktime\<close> in the zone of the process. \<open>http\<close> is the
  server behind \<open>urlopen\<close>: \<open>Inl\<close> is an \<open>HTTPError\<close> with its body, \<open>Inr\<close> a response
  with its body. \<open>loads\<close> is \<open>json.loads\<close>: \<open>Inl\<close> is the text of its \<open>ValueError\<close>.
  \<open>sent\<close> lists the requests that reached \<open>urlopen\<close>, oldest first.
\<close>

record 'j world =
  Monitis_sandbox :: bool
  Monitis_apikey :: "string option"
  Monitis_secretkey :: "string option"
  environ :: "string \<Rightarrow> string option"
  utcnow :: datetime
  time_now :: real
  mktime :: "datetime \<Rightarrow> real"
  http :: "request \<Rightarrow> string + string"
  loads :: "string \<Rightarrow> string + 'j"
  sent :: "request list"

definition default_url :: string where
  "default_url = ''http://monitis.com/api''"

definition sandbox_url :: string where
  "sandbox_url = ''http://sandbox.monitis.com/api''"

definition api_url :: "'j world \<Rightarrow> string" where
  "api_url w = (if Monitis_sandbox w then sandbox_url else default_url)"

definition decode_json :: "'j world \<Rightarrow> string \<Rightarrow> error + 'j" where
  "decode_json w json =
     (case loads w json of
        Inl msg \<Rightarrow> Inl (MonitisError (''JSON parse error'' @ '': '' @ msg))
      | Inr v \<Rightarrow> Inr v)"

definition environ_key :: "'j world \<Rightarrow> string \<Rightarrow> string option" where
  "environ_key w name = environ w name"

definition resolve_apikey :: "'j world \<Rightarrow> error + string" where
  "resolve_apikey w =
     (case Monitis_apikey w of
        Some apikey \<Rightarrow> Inr apikey
      | None \<Rightarrow>
         (case (if Monitis_sandbox w then environ_key w ''MONITIS_SANDBOX_APIKEY''
                else environ_key w ''MONITIS_APIKEY'') of
            Some apikey \<Rightarrow> Inr apikey
          | None \<Rightarrow> Inl (MonitisError ''The Monitis API key is required'')))"

definition resolve_secretkey :: "'j world \<Rightarrow> error + string" where
  "resolve_secretkey w =
     (case Monitis_secretkey w of
        Some secretkey \<Rightarrow> Inr secretkey
      | None \<Rightarrow>
         (case (if Monitis_sandbox w then environ_key w ''MONITIS_SANDBOX_SECRETKEY''
                else environ_key w ''MONITIS_SECRETKEY'') of
            Some secretkey \<Rightarrow> Inr secretkey
          | None \<Rightarrow> Inl (MonitisError ''The Monitis secret key is required'')))"

subsection \<open>timestamp and checktime\<close>

definition zero_pad :: "nat \<Rightarrow> nat \<Rightarrow> string" where
  "zero_pad width n = replicate (width - length (digits n)) (CHR ''0'') @ digits n"

text \<open>\<open>strftime("%F %T")\<close>, that is \<open>%Y-%m-%d %H:%M:%S\<close>.\<close>

definition strftime_F_T :: "datetime \<Rightarrow> string" where
  "strftime_F_T dt =
     zero_pad 4 (dt_year dt) @ ''-'' @ zero_pad 2 (dt_month dt) @ ''-'' @ zero_pad 2 (dt_day dt)
     @ '' '' @ zero_pad 2 (dt_hour dt) @ '':'' @ zero_pad 2 (dt_minute dt)
     @ '':'' @ zero_pad 2 (dt_second dt)"

definition timestamp :: "'j world \<Rightarrow> string" where
  "timestamp w = strftime_F_T (utcnow w)"



subsection \<open>checksum\<close>

text \<open>
  \<open>sorted(kwargs.items())\<close> orders the (key, value) pairs; the keys of a dict differ, so
  the order is the one of the keys.
\<close>

definition param_string :: "dict \<Rightarrow> string" where
  "param_string kwargs = concat (map (\<lambda>(x, y). x @ str y) (sort_key fst kwargs))"

text \<open>
  \<open>b64encode(str(new_hmac(secretkey, param_string, sha1).digest()))\<close>; \<open>hmac\<close> raises
  \<open>TypeError\<close> on a key that is not a string.
\<close>

definition sign :: "pyval \<Rightarrow> string \<Rightarrow> error + string" where
  "sign secretkey s =
     (case secretkey of
        PyStr key \<Rightarrow> Inr (b64encode (hmac_sha1 key s))
      | _ \<Rightarrow> Inl TypeError)"

text \<open>
  In \<open>kwargs.pop('secretkey', resolve_secretkey())\<close> the default is an argument of
  \<open>pop\<close>: \<open>resolve_secretkey()\<close> is called, and may raise, before the lookup.
\<close>

definition checksum :: "dict \<Rightarrow> 'j world \<Rightarrow> error + string" where
  "checksum kwargs w =
     (case resolve_secretkey w of
        Inl e \<Rightarrow> Inl e
      | Inr dflt \<Rightarrow>
         (case dict_pop ''secretkey'' (PyStr dflt) kwargs of
            (secretkey, kwargs') \<Rightarrow> sign secretkey (param_string kwargs')))"

subsection \<open>get and post\<close>

text \<open>
  What a call returns: the response object of \<open>urlopen\<close> (raw mode), the text read from
  it, or the value decoded from that text.
\<close>

datatype 'j reply = Response string | Body string | Decoded 'j

text \<open>
  The named parameters \<open>apikey\<close>, \<open>action\<close>, \<open>version\<close> and \<open>_url\<close> are never keys of
  \<open>kwargs\<close>: Python binds them to the parameters.
\<close>

definition get ::
  "string option \<Rightarrow> string option \<Rightarrow> pyval \<Rightarrow> string option \<Rightarrow> dict \<Rightarrow> 'j world
     \<Rightarrow> (error + 'j reply) \<times> 'j world" where
  "get apikey action version url' kwargs w =
     (let url = py_or_str url' (api_url w);
          (raw, kwargs1) = dict_pop ''_raw'' (PyBool False) kwargs
      in
      case py_or apikey (resolve_apikey w) of
        Inl e \<Rightarrow> (Inl e, w)
      | Inr apikey1 \<Rightarrow>
          if apikey1 = [] then (Inl (MonitisError ''get: apikey is required''), w)
          else (case action of
             None \<Rightarrow> (Inl (MonitisError ''get: action is required''), w)
           | Some action1 \<Rightarrow>
               if action1 = [] then (Inl (MonitisError ''get: action is required''), w)
               else
                 let req_params = [(''apikey'', PyStr apikey1), (''action'', PyStr action1),
                                   (''output'', PyStr ''JSON''), (''version'', version)] @ kwargs1;
                     req = GET url req_params;
                     w' = w\<lparr>sent := sent w @ [req]\<rparr>
                 in (case http w req of
                       Inl body \<Rightarrow> (Inl (MonitisError (''API Error: '' @ body)), w')
                     | Inr res_json \<Rightarrow>
                         if truthy raw then (Inr (Response res_json), w')
                         else (case decode_json w res_json of
                                 Inl e \<Rightarrow> (Inl e, w')
                               | Inr v \<Rightarrow> (Inr (Decoded v), w')))))"

definition post ::
  "string option \<Rightarrow> string option \<Rightarrow> string option \<Rightarrow> pyval \<Rightarrow> string option \<Rightarrow> dict
     \<Rightarrow> 'j world \<Rightarrow> (error + 'j reply) \<times> 'j world" where
  "post apikey secretkey action version url' kwargs w =
     (case py_or apikey (resolve_apikey w) of
        Inl e \<Rightarrow> (Inl e, w)
      | Inr apikey1 \<Rightarrow>
     (case py_or secretkey (resolve_secretkey w) of
        Inl e \<Rightarrow> (Inl e, w)
      | Inr secretkey1 \<Rightarrow>
     (let url = py_or_str url' (api_url w);
          (raw, kwargs1) = dict_pop ''_raw'' (PyBool False) kwargs
      in
      case action of
        None \<Rightarrow> (Inl (MonitisError ''post: action is required''), w)
      | Some action1 \<Rightarrow>
          if action1 = [] then (Inl (MonitisError ''post: action is required''), w)
          else
            let post_args = AList.update ''timestamp'' (PyStr (timestamp w))
                             (AList.update ''version'' version
                               (AList.update ''action'' (PyStr action1)
                                 (AList.update ''apikey'' (PyStr apikey1) kwargs1)))
            in (case checksum (AList.update ''secretkey'' (PyStr secretkey1) post_args) w of
                  Inl e \<Rightarrow> (Inl e, w)
                | Inr post_checksum \<Rightarrow>
                    let req = POST url (AList.update ''checksum'' (PyStr post_checksum) post_args);
                        w' = w\<lparr>sent := sent w @ [req]\<rparr>
                    in (case http w req of
                          Inl body \<Rightarrow> (Inl (MonitisError (''API Error: '' @ body)), w')
                        | Inr ret \<Rightarrow>
                            if truthy raw then (Inr (Response ret), w')
                            else (case decode_json w ret of
                                    Inl e \<Rightarrow> (Inl e, w')
                                  | Inr v \<Rightarrow> (Inr (Decoded v), w')))))))"

subsection \<open>The class Monitis\<close>

record monitis =
  self_auth_token :: "string option"
  self_url :: string
  self_apikey :: "string option"
  self_secretkey :: "string option"
  self_validation :: string
  self_version :: pyval

text \<open>
  The methods \<open>resolve_apikey\<close> and \<open>resolve_secretkey\<close>. Their last \<open>raise\<close> is not
  reached: the module function returns a string or raises.
\<close>

definition Monitis_resolve_apikey :: "monitis \<Rightarrow> 'j world \<Rightarrow> error + string" where
  "Monitis_resolve_apikey self w =
     (case self_apikey self of
        Some apikey \<Rightarrow> Inr apikey
      | None \<Rightarrow> resolve_apikey w)"

definition Monitis_resolve_secretkey :: "monitis \<Rightarrow> 'j world \<Rightarrow> error + string" where
  "Monitis_resolve_secretkey self w =
     (case self_secretkey self of
        Some secretkey \<Rightarrow> Inr secretkey
      | None \<Rightarrow> resolve_secretkey w)"

text \<open>
  \<open>__init__\<close>. While it runs, an attribute it has not assigned yet is read from the
  class: \<open>unassigned\<close> is the object in that state.
\<close>

definition unassigned :: "'j world \<Rightarrow> monitis" where
  "unassigned w =
     \<lparr>self_auth_token = None, self_url = [], self_apikey = Monitis_apikey w,
      self_secretkey = Monitis_secretkey w, self_validation = [], self_version = PyNone\<rparr>"

definition Monitis_init ::
  "string option \<Rightarrow> string option \<Rightarrow> string option \<Rightarrow> pyval \<Rightarrow> string option \<Rightarrow> 'j world
     \<Rightarrow> error + monitis" where
  "Monitis_init apikey secretkey url' version validation w =
     (let url = py_or_str url' (api_url w) in
      case py_or apikey (Monitis_resolve_apikey (unassigned w) w) of
        Inl e \<Rightarrow> Inl e
      | Inr apikey1 \<Rightarrow>
     (case py_or secretkey (Monitis_resolve_secretkey (unassigned w) w) of
        Inl e \<Rightarrow> Inl e
      | Inr secretkey1 \<Rightarrow>
          Inr \<lparr>self_auth_token = None, self_url = url, self_apikey = Some apikey1,
               self_secretkey = Some secretkey1,
               self_validation = py_or_str validation ''HMACSHA1'',
               self_version = (if truthy version then version else PyStr ''2'')\<rparr>))"

text \<open>The method \<open>checksum\<close>: its own loop over the sorted items.\<close>

definition Monitis_param_string :: "dict \<Rightarrow> string" where
  "Monitis_param_string kwargs =
     fold (\<lambda>(key, val) param_string. param_string @ key @ str val) (sort_key fst kwargs) []"

definition Monitis_checksum :: "monitis \<Rightarrow> dict \<Rightarrow> 'j world \<Rightarrow> error + string" where
  "Monitis_checksum self kwargs w =
     (case map_of kwargs ''secretkey'' of
        Some secretkey \<Rightarrow>
          sign secretkey (Monitis_param_string (AList.delete ''secretkey'' kwargs))
      | None \<Rightarrow>
          (case py_or (self_secretkey self) (resolve_secretkey w) of
             Inl e \<Rightarrow> Inl e
           | Inr secretkey \<Rightarrow> sign (PyStr secretkey) (Monitis_param_string kwargs)))"

text \<open>The method \<open>post\<close>: it returns the text read from the response.\<close>

definition Monitis_post ::
  "monitis \<Rightarrow> dict \<Rightarrow> 'j world \<Rightarrow> (error + 'j reply) \<times> 'j world" where
  "Monitis_post self kwargs w =
     (let post_args = AList.update ''timestamp'' (PyStr (timestamp w))
                       (AList.update ''version'' (self_version self)
                         (AList.update ''apikey'' (py_opt (self_apikey self)) kwargs))
      in case Monitis_checksum self post_args w of
           Inl e \<Rightarrow> (Inl e, w)
         | Inr post_checksum \<Rightarrow>
             let req = POST (self_url self)
                         (AList.update ''checksum'' (PyStr post_checksum) post_args);
                 w' = w\<lparr>sent := sent w @ [req]\<rparr>
             in (case http w req of
                   Inl body \<Rightarrow> (Inl (MonitisError (''API Error: '' @ body)), w')
                 | Inr ret \<Rightarrow> (Inr (Body ret), w')))"

section \<open>Example values\<close>

text \<open>A type of decoded JSON values for the examples.\<close>

datatype json = JNull | JBool bool | JNum int | JStr string | JArr "json list"
  | JObj "(string \<times> json) list"

text \<open>
  A process with no credentials configured, at 2011-10-01 12:30:05 UTC, whose server
  answers every request with a body that is not JSON.
\<close>

definition bare_process :: "json world" where
  "bare_process =
     \<lparr>Monitis_sandbox = False, Monitis_apikey = None, Monitis_secretkey = None,
      environ = (\<lambda>name. None),
      utcnow = \<lparr>dt_year = 2011, dt_month = 10, dt_day = 1, dt_hour = 12, dt_minute = 30,
                dt_second = 5, dt_microsecond = 0\<rparr>,
      time_now = 1317472205,
      mktime = (\<lambda>d. 1000000),
      http = (\<lambda>req. Inr ''not json''),
      loads = (\<lambda>s. if s = ''{}'' then Inr (JObj []) else Inl ''No JSON object could be decoded''),
      sent = []\<rparr>"

section \<open>Reference definitions\<close>

text \<open>
  The naming conversion in the words of the specification: every character is
  lower-cased, and an underscore is put between a lowercase letter and an uppercase
  letter that follows it immediately. \<open>under_from c cs\<close> is what follows the character \<open>c\<close>.
\<close>

fun under_from :: "char \<Rightarrow> string \<Rightarrow> string" where
  "under_from c [] = []"
| "under_from c (d # cs) =
     (if islower c \<and> isupper d then ''_'' else []) @ lower_char d # under_from d cs"

fun underscored :: "string \<Rightarrow> string" where
  "underscored [] = []"
| "underscored (c # cs) = lower_char c # under_from c cs"

text \<open>
  The priority chain in the words of the specification: of the sources, in order, the
  first non-empty value wins. \<open>first_present\<close> is the chain in which a value wins as soon
  as it is set, empty or not.
\<close>

fun first_nonempty :: "string option list \<Rightarrow> string option" where
  "first_nonempty [] = None"
| "first_nonempty (None # xs) = first_nonempty xs"
| "first_nonempty (Some s # xs) = (if s \<noteq> [] then Some s else first_nonempty xs)"

fun first_present :: "string option list \<Rightarrow> string option" where
  "first_present [] = None"
| "first_present (None # xs) = first_present xs"
| "first_present (Some s # xs) = Some s"

text \<open>The environment variable that the sandbox flag selects.\<close>

definition env_apikey :: "'j world \<Rightarrow> string option" where
  "env_apikey w =
     environ w (if Monitis_sandbox w then ''MONITIS_SANDBOX_APIKEY'' else ''MONITIS_APIKEY'')"

definition env_secretkey :: "'j world \<Rightarrow> string option" where
  "env_secretkey w =
     environ w (if Monitis_sandbox w then ''MONITIS_SANDBOX_SECRETKEY'' else ''MONITIS_SECRETKEY'')"

text \<open>The outcome of a chain: the value found, or the error of the missing credential.\<close>

definition found_or :: "string \<Rightarrow> string option \<Rightarrow> error + string" where
  "found_or msg v = (case v of Some s \<Rightarrow> Inr s | None \<Rightarrow> Inl (MonitisError msg))"

text \<open>
  A process whose class-level API key and secret key are set to the empty string, with
  both keys in the environment; and an object that holds no credentials of its own.
\<close>

definition empty_class_process :: "json world" where
  "empty_class_process =
     bare_process
       \<lparr>Monitis_apikey := Some [], Monitis_secretkey := Some [],
        environ := (\<lambda>name. if name = ''MONITIS_APIKEY'' then Some ''envkey''
                            else if name = ''MONITIS_SECRETKEY'' then Some ''envsecret''
                            else None)\<rparr>"

definition blank_object :: monitis where
  "blank_object =
     \<lparr>self_auth_token = None, self_url = default_url, self_apikey = None,
      self_secretkey = None, self_validation = ''HMACSHA1'', self_version = PyStr ''2''\<rparr>"

text \<open>
  The signature in the words of the specification: the entries sorted by key, each key
  immediately followed by the text of its value, the HMAC-SHA1 of that string under the
  secret key, in base64.
\<close>

definition sorted_entries :: "(string \<rightharpoonup> pyval) \<Rightarrow> (string \<times> pyval) list" where
  "sorted_entries m = map (\<lambda>k. (k, the (m k))) (sorted_list_of_set (dom m))"

definition signed_text :: "(string \<rightharpoonup> pyval) \<Rightarrow> string" where
  "signed_text m = concat (map (\<lambda>(k, v). k @ str v) (sorted_entries m))"

definition signature :: "string \<Rightarrow> (string \<rightharpoonup> pyval) \<Rightarrow> string" where
  "signature secret m = b64encode (hmac_sha1 secret (signed_text m))"

text \<open>The characters of a base64 text.\<close>

definition b64_chars :: "char set" where
  "b64_chars = set b64_alphabet \<union> {CHR ''=''}"

text \<open>
  The test vector of the specification, and a process with a class-level secret key.
\<close>

definition test_vector :: dict where
  "test_vector = [(''action'', PyStr ''test''), (''apikey'', PyStr ''abc''), (''version'', PyStr ''2'')]"

definition keyed_process :: "json world" where
  "keyed_process = bare_process\<lparr>Monitis_secretkey := Some ''shared''\<rparr>"

text \<open>An object that holds an API key and a secret key.\<close>

definition keyed_object :: monitis where
  "keyed_object = blank_object\<lparr>self_apikey := Some ''abc'', self_secretkey := Some ''secret''\<rparr>"


section \<open>Properties\<close>

subsection \<open>checktime\<close>

lemma digits_small: "n < 10 \<Longrightarrow> digits n = [digit_char n]"
  by (simp add: digits.simps)






lemma timestamp_ex: "timestamp bare_process = ''2011-10-01 12:30:05''"
  by (simp add: timestamp_def strftime_F_T_def zero_pad_def bare_process_def digits.simps digit_char_def)



subsection \<open>get\<close>

text \<open>
  C7. When the API key resolves to nothing (the resolution raises, or yields the empty
  string) or the action is absent, \<open>get\<close> raises a \<open>MonitisError\<close> and leaves the process
  as it was: no request reaches \<open>urlopen\<close>. The message is the one of the missing API key
  in the first case and \<open>get: action is required\<close> when only the action is missing.
\<close>

theorem get_fails_before_request:
  "(py_or apikey (resolve_apikey w) = Inl e \<longrightarrow>
      e = MonitisError ''The Monitis API key is required''
      \<and> get apikey action version url' kwargs w = (Inl e, w))
   \<and> (py_or apikey (resolve_apikey w) = Inr [] \<longrightarrow>
      get apikey action version url' kwargs w = (Inl (MonitisError ''get: apikey is required''), w))
   \<and> (action = None \<or> action = Some [] \<longrightarrow>
      (\<exists>msg. get apikey action version url' kwargs w = (Inl (MonitisError msg), w))
      \<and> (\<forall>k. py_or apikey (resolve_apikey w) = Inr k \<and> k \<noteq> [] \<longrightarrow>
           get apikey action version url' kwargs w = (Inl (MonitisError ''get: action is required''), w)))"
  apply (cases apikey; cases action)
  apply (auto simp: get_def resolve_apikey_def Let_def split: prod.splits sum.splits option.splits if_splits)
  done


theorem get_fails_before_request_witness:
  "py_or None (resolve_apikey bare_process) = Inl (MonitisError ''The Monitis API key is required'')
   \<and> get None (Some ''agents'') (PyStr ''2'') None [] bare_process
       = (Inl (MonitisError ''The Monitis API key is required''), bare_process)
   \<and> py_or (Some ''abc'') (resolve_apikey bare_process) = Inr ''abc''
   \<and> get (Some ''abc'') None (PyStr ''2'') None [] bare_process
       = (Inl (MonitisError ''get: action is required''), bare_process)
   \<and> py_or None (resolve_apikey (bare_process\<lparr>Monitis_apikey := Some []\<rparr>)) = Inr []
   \<and> get None (Some ''agents'') (PyStr ''2'') None [] (bare_process\<lparr>Monitis_apikey := Some []\<rparr>)
       = (Inl (MonitisError ''get: apikey is required''), bare_process\<lparr>Monitis_apikey := Some []\<rparr>)"
proof -
  have a: "py_or None (resolve_apikey bare_process) = Inl (MonitisError ''The Monitis API key is required'')"
    by (simp add: resolve_apikey_def environ_key_def bare_process_def)
  have b: "py_or (Some ''abc'') (resolve_apikey bare_process) = Inr ''abc''"
    by simp
  have c: "py_or None (resolve_apikey (bare_process\<lparr>Monitis_apikey := Some []\<rparr>)) = Inr []"
    by (simp add: resolve_apikey_def)
  from a get_fails_before_request [where apikey = None and w = bare_process and action = "Some ''agents''"
      and e = "MonitisError ''The Monitis API key is required''" and version = "PyStr ''2''" and url' = None and kwargs = "[]"]
  have 1: "get None (Some ''agents'') (PyStr ''2'') None [] bare_process
       = (Inl (MonitisError ''The Monitis API key is required''), bare_process)" by blast
  from b get_fails_before_request [where apikey = "Some ''abc''" and w = bare_process and action = None
      and version = "PyStr ''2''" and url' = None and kwargs = "[]"]
  have 2: "get (Some ''abc'') None (PyStr ''2'') None [] bare_process
       = (Inl (MonitisError ''get: action is required''), bare_process)" by simp
  from c get_fails_before_request [where apikey = None and w = "bare_process\<lparr>Monitis_apikey := Some []\<rparr>" and action = "Some ''agents''"
      and version = "PyStr ''2''" and url' = None and kwargs = "[]"]
  have 3: "get None (Some ''agents'') (PyStr ''2'') None [] (bare_process\<lparr>Monitis_apikey := Some []\<rparr>)
       = (Inl (MonitisError ''get: apikey is required''), bare_process\<lparr>Monitis_apikey := Some []\<rparr>)" by blast
  from a b c 1 2 3 show ?thesis by blast
qed

subsection \<open>camel2under\<close>

lemma isupper_iff: "isupper c \<longleftrightarrow> 65 \<le> (of_char c :: nat) \<and> (of_char c :: nat) \<le> 90"
  by (simp add: isupper_def less_eq_char_def)

lemma islower_iff: "islower c \<longleftrightarrow> 97 \<le> (of_char c :: nat) \<and> (of_char c :: nat) \<le> 122"
  by (simp add: islower_def less_eq_char_def)

lemma lower_char_underscore: "lower_char (CHR ''_'') = CHR ''_''"
  by (simp add: lower_char_def isupper_def)

lemma lower_char_id: "\<not> isupper c \<Longrightarrow> lower_char c = c"
  by (simp add: lower_char_def)

lemma not_isupper_lower_char: "\<not> isupper (lower_char c)"
  by (auto simp: lower_char_def isupper_iff)

lemma not_isupper_underscore: "\<not> isupper (CHR ''_'')"
  by (simp add: isupper_def)

lemma camel2under_loop:
  "lower (fold (camel2under_step (pre @ c # cs)) [length pre..<length pre + length cs] acc
          @ [last (c # cs)])
   = lower acc @ lower_char c # under_from c cs"
proof (induction cs arbitrary: pre c acc)
  case Nil
  then show ?case by (simp add: lower_def)
next
  case (Cons d cs)
  have range: "[length pre..<length pre + length (d # cs)]
      = length pre # [length (pre @ [c])..<length (pre @ [c]) + length cs]"
    using upt_conv_Cons [of "length pre" "length pre + length (d # cs)"] by simp
  have step: "camel2under_step (pre @ c # d # cs) (length pre) acc
      = acc @ [c] @ (if islower c \<and> isupper d then ''_'' else [])"
    by (simp add: camel2under_step_def nth_append)
  have "lower (fold (camel2under_step ((pre @ [c]) @ d # cs))
                 [length (pre @ [c])..<length (pre @ [c]) + length cs]
                 (acc @ [c] @ (if islower c \<and> isupper d then ''_'' else []))
               @ [last (d # cs)])
        = lower (acc @ [c] @ (if islower c \<and> isupper d then ''_'' else []))
          @ lower_char d # under_from d cs"
    by (rule Cons.IH)
  then show ?case
    unfolding range
    by (simp add: step lower_def lower_char_underscore)
qed

lemma camel2under_underscored: "word \<noteq> [] \<Longrightarrow> camel2under word = Inr (underscored word)"
proof -
  assume "word \<noteq> []"
  then obtain c cs where w: "word = c # cs" by (cases word) auto
  from camel2under_loop [of "[]" c cs "[]"]
  show ?thesis by (simp add: w camel2under_def lower_def)
qed

lemma under_from_no_upper:
  "\<forall>x \<in> set (c # cs). \<not> isupper x \<Longrightarrow> under_from c cs = cs"
  by (induction cs arbitrary: c) (auto simp: lower_char_id)

lemma underscored_no_upper: "\<forall>x \<in> set w. \<not> isupper x \<Longrightarrow> underscored w = w"
  by (cases w) (auto simp: under_from_no_upper lower_char_id)

lemma under_from_lowered: "x \<in> set (under_from c cs) \<Longrightarrow> \<not> isupper x"
  by (induction cs arbitrary: c) (auto simp: not_isupper_lower_char not_isupper_underscore split: if_splits)

lemma underscored_lowered: "x \<in> set (underscored w) \<Longrightarrow> \<not> isupper x"
  by (cases w) (auto simp: not_isupper_lower_char dest: under_from_lowered)

lemma underscored_Nil_iff: "underscored w = [] \<longleftrightarrow> w = []"
  by (cases w) auto

text \<open>
  The single-character name \<open>A\<close> is not left unchanged: it is lower-cased.
\<close>

theorem camel2under_single_counterexample:
  "camel2under ''A'' = Inr ''a'' \<and> camel2under ''A'' \<noteq> Inr ''A''"
  by (simp add: camel2under_def lower_def) code_simp

text \<open>
  C5, amended. For a non-empty word \<open>camel2under\<close> returns the word lower-cased, with an
  underscore exactly between each lowercase letter and an uppercase letter that follows
  it immediately. A single-character name gets no underscore and is lower-cased; a
  non-empty name without uppercase letters is unchanged; the conversion is idempotent.
  No underscore is put between two uppercase letters or after a digit.
\<close>

theorem camel2under_boundaries:
  "(word \<noteq> [] \<longrightarrow> camel2under word = Inr (underscored word))
   \<and> camel2under [c] = Inr [lower_char c]
   \<and> (word \<noteq> [] \<and> (\<forall>x \<in> set word. \<not> isupper x) \<longrightarrow> camel2under word = Inr word)
   \<and> (\<forall>u. camel2under word = Inr u \<longrightarrow> camel2under u = Inr u)
   \<and> camel2under ''agentId'' = Inr ''agent_id''
   \<and> camel2under ''allAgentsSnapshot'' = Inr ''all_agents_snapshot''
   \<and> camel2under ''agents'' = Inr ''agents''
   \<and> camel2under ''agentID'' = Inr ''agent_id''
   \<and> camel2under ''name1Value'' = Inr ''name1value''"
proof -
  have a: "word \<noteq> [] \<longrightarrow> camel2under word = Inr (underscored word)"
    by (simp add: camel2under_underscored)
  have b: "camel2under [c] = Inr [lower_char c]"
    by (simp add: camel2under_underscored)
  have c: "word \<noteq> [] \<and> (\<forall>x \<in> set word. \<not> isupper x) \<longrightarrow> camel2under word = Inr word"
    by (simp add: camel2under_underscored underscored_no_upper)
  have d: "\<forall>u. camel2under word = Inr u \<longrightarrow> camel2under u = Inr u"
  proof (intro allI impI)
    fix u assume u: "camel2under word = Inr u"
    then have ne: "word \<noteq> []" by (auto simp: camel2under_def)
    with u have eq: "u = underscored word" by (simp add: camel2under_underscored)
    with ne have "u \<noteq> []" by (simp add: underscored_Nil_iff)
    moreover have "\<forall>x \<in> set u. \<not> isupper x" using eq underscored_lowered by blast
    ultimately show "camel2under u = Inr u"
      by (simp add: camel2under_underscored underscored_no_upper)
  qed
  have e1: "camel2under ''agentId'' = Inr ''agent_id''" by code_simp
  have e2: "camel2under ''allAgentsSnapshot'' = Inr ''all_agents_snapshot''" by code_simp
  have e3: "camel2under ''agents'' = Inr ''agents''" by code_simp
  have e4: "camel2under ''agentID'' = Inr ''agent_id''" by code_simp
  have e5: "camel2under ''name1Value'' = Inr ''name1value''" by code_simp
  from a b c d e1 e2 e3 e4 e5 show ?thesis by blast
qed

theorem camel2under_boundaries_witness:
  "''key_reg_exp'' \<noteq> []
   \<and> camel2under ''key_reg_exp'' = Inr ''key_reg_exp''
   \<and> camel2under ''keyRegExp'' = Inr (underscored ''keyRegExp'')
   \<and> underscored ''keyRegExp'' = ''key_reg_exp''"
proof -
  have h: "''key_reg_exp'' \<noteq> [] \<and> (\<forall>x \<in> set ''key_reg_exp''. \<not> isupper x)"
    by (simp add: isupper_def)
  have n: "''keyRegExp'' \<noteq> []" by simp
  have u: "underscored ''keyRegExp'' = ''key_reg_exp''" by code_simp
  from h n u camel2under_boundaries [where word = "''key_reg_exp''"]
    camel2under_boundaries [where word = "''keyRegExp''"]
  show ?thesis by blast
qed

subsection \<open>Credential resolution\<close>

lemma resolve_apikey_chain:
  "resolve_apikey w
   = found_or ''The Monitis API key is required'' (first_present [Monitis_apikey w, env_apikey w])"
  by (cases "Monitis_apikey w")
     (auto simp: resolve_apikey_def environ_key_def env_apikey_def found_or_def
           split: option.splits)

lemma resolve_secretkey_chain:
  "resolve_secretkey w
   = found_or ''The Monitis secret key is required''
       (first_present [Monitis_secretkey w, env_secretkey w])"
  by (cases "Monitis_secretkey w")
     (auto simp: resolve_secretkey_def environ_key_def env_secretkey_def found_or_def
           split: option.splits)

lemma Monitis_resolve_apikey_chain:
  "Monitis_resolve_apikey self w
   = found_or ''The Monitis API key is required''
       (first_present [self_apikey self, Monitis_apikey w, env_apikey w])"
  by (cases "self_apikey self") (simp_all add: Monitis_resolve_apikey_def resolve_apikey_chain found_or_def)

lemma Monitis_resolve_secretkey_chain:
  "Monitis_resolve_secretkey self w
   = found_or ''The Monitis secret key is required''
       (first_present [self_secretkey self, Monitis_secretkey w, env_secretkey w])"
  by (cases "self_secretkey self")
     (simp_all add: Monitis_resolve_secretkey_def resolve_secretkey_chain found_or_def)

lemma py_or_first: "py_or explicit alt = (case first_nonempty [explicit] of Some s \<Rightarrow> Inr s | None \<Rightarrow> alt)"
  by (cases explicit) auto

text \<open>
  With the class-level API key set to the empty string and a key in the environment,
  the first non-empty value of the chain is the one of the environment, but the
  resolution returns the empty string.
\<close>

theorem resolve_first_nonempty_counterexample:
  "first_nonempty [None, self_apikey blank_object, Monitis_apikey empty_class_process,
                   env_apikey empty_class_process] = Some ''envkey''
   \<and> py_or None (Monitis_resolve_apikey blank_object empty_class_process) = Inr []
   \<and> first_nonempty [None, self_secretkey blank_object, Monitis_secretkey empty_class_process,
                     env_secretkey empty_class_process] = Some ''envsecret''
   \<and> py_or None (Monitis_resolve_secretkey blank_object empty_class_process) = Inr []"
  by (simp add: blank_object_def empty_class_process_def bare_process_def env_apikey_def
        env_secretkey_def Monitis_resolve_apikey_def Monitis_resolve_secretkey_def
        resolve_apikey_def resolve_secretkey_def)

text \<open>
  C4, amended. The API key and the secret key are each resolved from their own sources:
  the explicit argument of the call site wins when it is non-empty; otherwise the first
  value that is set (not \<open>None\<close>, possibly empty) wins among the value of the object,
  the class-level value and the environment variable that the sandbox flag selects, in
  that order. If none is set the resolution raises, with a message for the API key and
  another one for the secret key. The module functions have no object in their chain,
  and \<open>__init__\<close> stores what the chains yield.
\<close>

theorem credential_chain:
  "py_or explicit (Monitis_resolve_apikey self w)
     = (case first_nonempty [explicit] of
          Some s \<Rightarrow> Inr s
        | None \<Rightarrow> found_or ''The Monitis API key is required''
                    (first_present [self_apikey self, Monitis_apikey w, env_apikey w]))
   \<and> py_or explicit (Monitis_resolve_secretkey self w)
     = (case first_nonempty [explicit] of
          Some s \<Rightarrow> Inr s
        | None \<Rightarrow> found_or ''The Monitis secret key is required''
                    (first_present [self_secretkey self, Monitis_secretkey w, env_secretkey w]))
   \<and> py_or explicit (resolve_apikey w)
     = (case first_nonempty [explicit] of
          Some s \<Rightarrow> Inr s
        | None \<Rightarrow> found_or ''The Monitis API key is required''
                    (first_present [Monitis_apikey w, env_apikey w]))
   \<and> py_or explicit (resolve_secretkey w)
     = (case first_nonempty [explicit] of
          Some s \<Rightarrow> Inr s
        | None \<Rightarrow> found_or ''The Monitis secret key is required''
                    (first_present [Monitis_secretkey w, env_secretkey w]))
   \<and> (\<forall>obj. Monitis_init explicit explicit2 url' version validation w = Inr obj \<longrightarrow>
         Inr (the (self_apikey obj)) = py_or explicit (Monitis_resolve_apikey (unassigned w) w)
         \<and> Inr (the (self_secretkey obj))
             = py_or explicit2 (Monitis_resolve_secretkey (unassigned w) w))
   \<and> found_or ''The Monitis API key is required'' None
       \<noteq> found_or ''The Monitis secret key is required'' None"
proof -
  have init: "\<forall>obj. Monitis_init explicit explicit2 url' version validation w = Inr obj \<longrightarrow>
         Inr (the (self_apikey obj)) = py_or explicit (Monitis_resolve_apikey (unassigned w) w)
         \<and> Inr (the (self_secretkey obj))
             = py_or explicit2 (Monitis_resolve_secretkey (unassigned w) w)"
    by (auto simp: Monitis_init_def Let_def split: sum.splits)
  have msgs: "found_or ''The Monitis API key is required'' None
       \<noteq> found_or ''The Monitis secret key is required'' None"
    by (simp add: found_or_def)
  from init msgs show ?thesis
    by (simp only: py_or_first Monitis_resolve_apikey_chain Monitis_resolve_secretkey_chain
          resolve_apikey_chain resolve_secretkey_chain simp_thms)
qed

theorem credential_chain_witness:
  "py_or (Some ''given'') (Monitis_resolve_apikey blank_object empty_class_process) = Inr ''given''
   \<and> py_or (Some []) (Monitis_resolve_apikey (blank_object\<lparr>self_apikey := Some ''held''\<rparr>)
              empty_class_process) = Inr ''held''
   \<and> py_or None (Monitis_resolve_secretkey blank_object
              (empty_class_process\<lparr>Monitis_secretkey := Some ''shared''\<rparr>)) = Inr ''shared''
   \<and> py_or None (resolve_apikey (empty_class_process\<lparr>Monitis_apikey := None\<rparr>)) = Inr ''envkey''
   \<and> py_or None (resolve_secretkey bare_process)
       = Inl (MonitisError ''The Monitis secret key is required'')
   \<and> Monitis_init (Some ''given'') None None PyNone None empty_class_process
       = Inr (blank_object\<lparr>self_apikey := Some ''given'', self_secretkey := Some []\<rparr>)
   \<and> Inr (the (self_secretkey (blank_object\<lparr>self_apikey := Some ''given'', self_secretkey := Some []\<rparr>)))
       = py_or None (Monitis_resolve_secretkey (unassigned empty_class_process) empty_class_process)"
proof -
  have i: "Monitis_init (Some ''given'') None None PyNone None empty_class_process
       = Inr (blank_object\<lparr>self_apikey := Some ''given'', self_secretkey := Some []\<rparr>)"
    by (simp add: Monitis_init_def Monitis_resolve_secretkey_def unassigned_def
          empty_class_process_def blank_object_def api_url_def bare_process_def)
  have 1: "py_or (Some ''given'') (Monitis_resolve_apikey blank_object empty_class_process) = Inr ''given''"
    using credential_chain [where explicit = "Some ''given''" and self = blank_object
        and w = empty_class_process]
    by simp
  have 2: "py_or (Some []) (Monitis_resolve_apikey (blank_object\<lparr>self_apikey := Some ''held''\<rparr>)
              empty_class_process) = Inr ''held''"
    using credential_chain [where explicit = "Some []"
        and self = "blank_object\<lparr>self_apikey := Some ''held''\<rparr>" and w = empty_class_process]
    by (simp add: found_or_def)
  have 3: "py_or None (Monitis_resolve_secretkey blank_object
              (empty_class_process\<lparr>Monitis_secretkey := Some ''shared''\<rparr>)) = Inr ''shared''"
    using credential_chain [where explicit = None and self = blank_object
        and w = "empty_class_process\<lparr>Monitis_secretkey := Some ''shared''\<rparr>"]
    by (simp add: found_or_def blank_object_def)
  have 4: "py_or None (resolve_apikey (empty_class_process\<lparr>Monitis_apikey := None\<rparr>)) = Inr ''envkey''"
    using credential_chain [where explicit = None and self = blank_object
        and w = "empty_class_process\<lparr>Monitis_apikey := None\<rparr>"]
    by (simp add: found_or_def env_apikey_def empty_class_process_def bare_process_def)
  have 5: "py_or None (resolve_secretkey bare_process)
       = Inl (MonitisError ''The Monitis secret key is required'')"
    using credential_chain [where explicit = None and self = blank_object and w = bare_process]
    by (simp add: found_or_def env_secretkey_def bare_process_def)
  have 6: "Inr (the (self_secretkey (blank_object\<lparr>self_apikey := Some ''given'', self_secretkey := Some []\<rparr>)))
       = py_or None (Monitis_resolve_secretkey (unassigned empty_class_process) empty_class_process)"
    using i credential_chain [where explicit = "Some ''given''" and ?explicit2.0 = None
        and url' = None and version = PyNone and validation = None and w = empty_class_process]
    by blast
  from i 1 2 3 4 5 6 show ?thesis by blast
qed

subsection \<open>SHA-1, HMAC and base64\<close>

lemma length_sha1: "length (sha1 m) = 20"
proof -
  obtain h0 h1 h2 h3 h4 where "foldl sha1_block sha1_init (blocks (sha1_pad m)) = (h0, h1, h2, h3, h4)"
    by (metis prod_cases5)
  then show ?thesis by (simp add: sha1_def word_bytes_def)
qed

lemma length_hmac_sha1: "length (hmac_sha1 key msg) = 20"
  by (simp add: hmac_sha1_def length_sha1)

lemma length_b64_group: "length (b64_group n) = 4"
  by (simp add: b64_group_def)

lemma b64_count: "(4::nat) + 4 * (Suc (Suc n) div 3) = 4 * ((5 + n) div 3)"
  by presburger

lemma length_b64encode: "length (b64encode bs) = 4 * ((length bs + 2) div 3)"
  by (induction bs rule: b64encode.induct) (simp_all add: length_b64_group b64_count)

lemma b64encode_padded:
  "length bs mod 3 = 2 \<Longrightarrow> \<exists>p. b64encode bs = p @ ''=''"
proof (induction bs rule: b64encode.induct)
  case (1 a b c bs)
  then have "length bs mod 3 = 2" by (simp add: mod_Suc split: if_splits)
  with 1 obtain p where "b64encode bs = p @ ''=''" by blast
  then show ?case by simp
qed simp_all

lemma length_b64_alphabet: "length b64_alphabet = 64"
  by (simp add: b64_alphabet_def)

lemma b64_char_in: "b64_char n \<in> b64_chars"
proof -
  have "n mod 64 < length b64_alphabet" by (simp add: length_b64_alphabet)
  then have "b64_alphabet ! (n mod 64) \<in> set b64_alphabet" by (rule nth_mem)
  then show ?thesis by (simp only: b64_char_def b64_chars_def Un_iff simp_thms)
qed

lemma b64_group_in: "set (b64_group n) \<subseteq> b64_chars"
  by (simp add: b64_group_def b64_char_in)

lemma b64encode_in: "set (b64encode bs) \<subseteq> b64_chars"
proof (induction bs rule: b64encode.induct)
  case (1 a b c bs)
  then show ?case using b64_group_in by simp
next
  case (2 a b)
  have "set (take 3 (b64_group (of_char a * 65536 + of_char b * 256))) \<subseteq> b64_chars"
    using b64_group_in set_take_subset by fast
  then show ?case by (simp add: b64_chars_def)
next
  case (3 a)
  have "set (take 2 (b64_group (of_char a * 65536))) \<subseteq> b64_chars"
    using b64_group_in set_take_subset by fast
  then show ?case by (simp add: b64_chars_def)
next
  case 4
  then show ?case by simp
qed



subsection \<open>The string that is signed\<close>

lemma distinct_map_sort_key: "distinct (map f (sort_key f xs)) = distinct (map f xs)"
  by (induction xs) (simp_all add: distinct_insort_key)

lemma sort_key_entries:
  assumes "distinct (map fst kwargs)"
  shows "sort_key fst kwargs = sorted_entries (map_of kwargs)"
proof -
  let ?ys = "sort_key fst kwargs"
  have keys: "map fst ?ys = sorted_list_of_set (dom (map_of kwargs))"
  proof (rule sorted_distinct_set_unique)
    show "sorted (map fst ?ys)" by (rule sorted_sort_key)
    show "distinct (map fst ?ys)"
      using assms by (simp add: distinct_map_sort_key)
    show "sorted (sorted_list_of_set (dom (map_of kwargs)))" by simp
    show "distinct (sorted_list_of_set (dom (map_of kwargs)))" by simp
    show "set (map fst ?ys) = set (sorted_list_of_set (dom (map_of kwargs)))"
      by (simp add: dom_map_of_conv_image_fst finite_dom_map_of)
  qed
  have "\<forall>p \<in> set ?ys. (fst p, the (map_of kwargs (fst p))) = p"
  proof
    fix p assume "p \<in> set ?ys"
    then have "(fst p, snd p) \<in> set kwargs" by simp
    with assms have "map_of kwargs (fst p) = Some (snd p)" by (rule map_of_is_SomeI)
    then show "(fst p, the (map_of kwargs (fst p))) = p" by simp
  qed
  then have "map (\<lambda>p. (fst p, the (map_of kwargs (fst p)))) ?ys = ?ys"
    by (intro map_idI) blast
  then have "?ys = map (\<lambda>k. (k, the (map_of kwargs k))) (map fst ?ys)"
    by (simp add: comp_def)
  with keys show ?thesis by (simp add: sorted_entries_def)
qed

lemma param_string_signed_text:
  "distinct (map fst kwargs) \<Longrightarrow> param_string kwargs = signed_text (map_of kwargs)"
  by (simp add: param_string_def signed_text_def sort_key_entries)

lemma fold_param_string:
  "fold (\<lambda>(key, val) param_string. param_string @ key @ str val) items acc
   = acc @ concat (map (\<lambda>(x, y). x @ str y) items)"
  by (induction items arbitrary: acc) (auto split: prod.splits)

lemma Monitis_param_string_eq: "Monitis_param_string kwargs = param_string kwargs"
  by (simp add: Monitis_param_string_def param_string_def fold_param_string)

subsection \<open>checksum\<close>

lemma sign_param_string:
  "sign secretkey s = (case secretkey of PyStr key \<Rightarrow> Inr (b64encode (hmac_sha1 key s)) | _ \<Rightarrow> Inl TypeError)"
  by (simp add: sign_def)

lemma map_of_delete_None: "map_of kwargs k = None \<Longrightarrow> (map_of kwargs)(k := None) = map_of kwargs"
  by (rule ext) simp

lemma checksum_map:
  assumes "distinct (map fst kwargs)"
  shows "checksum kwargs w
    = (case resolve_secretkey w of
         Inl e \<Rightarrow> Inl e
       | Inr dflt \<Rightarrow>
           sign (case map_of kwargs ''secretkey'' of None \<Rightarrow> PyStr dflt | Some v \<Rightarrow> v)
                (signed_text ((map_of kwargs)(''secretkey'' := None))))"
proof (cases "map_of kwargs ''secretkey''")
  case None
  with assms show ?thesis
    by (simp add: checksum_def dict_pop_def param_string_signed_text map_of_delete_None
          split: sum.splits)
next
  case (Some v)
  from assms have "distinct (map fst (AList.delete ''secretkey'' kwargs))"
    by (rule distinct_delete)
  with Some show ?thesis
    by (simp add: checksum_def dict_pop_def param_string_signed_text delete_conv'
          split: sum.splits)
qed

lemma Monitis_checksum_map:
  assumes "distinct (map fst kwargs)"
  shows "Monitis_checksum self kwargs w
    = (case map_of kwargs ''secretkey'' of
         Some v \<Rightarrow> sign v (signed_text ((map_of kwargs)(''secretkey'' := None)))
       | None \<Rightarrow>
           (case py_or (self_secretkey self) (resolve_secretkey w) of
              Inl e \<Rightarrow> Inl e
            | Inr key \<Rightarrow> sign (PyStr key) (signed_text ((map_of kwargs)(''secretkey'' := None)))))"
proof (cases "map_of kwargs ''secretkey''")
  case None
  with assms show ?thesis
    by (simp add: Monitis_checksum_def Monitis_param_string_eq param_string_signed_text
          map_of_delete_None split: sum.splits)
next
  case (Some v)
  from assms have "distinct (map fst (AList.delete ''secretkey'' kwargs))"
    by (rule distinct_delete)
  with Some show ?thesis
    by (simp add: Monitis_checksum_def Monitis_param_string_eq param_string_signed_text
          delete_conv')
qed

lemma length_signature: "length (signature key m) = 28"
  by (simp add: signature_def length_b64encode length_hmac_sha1)

lemma signature_padded: "\<exists>p. signature key m = p @ ''=''"
  unfolding signature_def by (rule b64encode_padded) (simp add: length_hmac_sha1)

lemma signature_in: "set (signature key m) \<subseteq> b64_chars"
  by (simp add: signature_def b64encode_in)

lemma signature_hides:
  "28 < length key \<or> \<not> set key \<subseteq> b64_chars \<Longrightarrow> \<not> sublist key (signature key' m)"
proof
  assume a: "28 < length key \<or> \<not> set key \<subseteq> b64_chars" and s: "sublist key (signature key' m)"
  from s have "length key \<le> 28" using sublist_length_le length_signature by metis
  moreover from s have "set key \<subseteq> b64_chars"
    using set_mono_sublist signature_in by blast
  ultimately show False using a by simp
qed

lemma test_vector_distinct: "distinct (map fst test_vector)"
  by (simp add: test_vector_def)

lemma test_vector_no_secret: "map_of test_vector ''secretkey'' = None"
  by (simp add: test_vector_def)

lemma keyed_secret: "resolve_secretkey keyed_process = Inr ''shared''"
  by (simp add: resolve_secretkey_def keyed_process_def)

lemma bare_secret: "resolve_secretkey bare_process = Inl (MonitisError ''The Monitis secret key is required'')"
  by (simp add: resolve_secretkey_def bare_process_def environ_key_def)

text \<open>
  With the secret key \<open>=\<close> the signature, which ends in the padding character of
  base64, contains the secret key.
\<close>

theorem checksum_shows_secret_counterexample:
  "Monitis_checksum blank_object ((''secretkey'', PyStr ''='') # test_vector) bare_process
     = Inr (signature ''='' (map_of test_vector))
   \<and> checksum ((''secretkey'', PyStr ''='') # test_vector) keyed_process
     = Inr (signature ''='' (map_of test_vector))
   \<and> sublist ''='' (signature ''='' (map_of test_vector))"
proof -
  have d: "distinct (map fst ((''secretkey'', PyStr ''='') # test_vector))"
    by (simp add: test_vector_def)
  have m: "(map_of ((''secretkey'', PyStr ''='') # test_vector))(''secretkey'' := None)
      = map_of test_vector"
    by (rule ext) (simp add: test_vector_def)
  have 1: "Monitis_checksum blank_object ((''secretkey'', PyStr ''='') # test_vector) bare_process
     = Inr (signature ''='' (map_of test_vector))"
    using m by (simp add: Monitis_checksum_map [OF d] sign_def signature_def)
  have 2: "checksum ((''secretkey'', PyStr ''='') # test_vector) keyed_process
     = Inr (signature ''='' (map_of test_vector))"
    using m by (simp add: checksum_map [OF d] keyed_secret sign_def signature_def)
  obtain p where "signature ''='' (map_of test_vector) = p @ ''=''"
    using signature_padded by blast
  then have 3: "sublist ''='' (signature ''='' (map_of test_vector))"
    by (simp add: sublist_append_leftI)
  from 1 2 3 show ?thesis by blast
qed

text \<open>
  C3, amended. For a dict of parameters and a secret key that is a string, taken from
  the entry \<open>secretkey\<close> of the dict or, without such an entry, from the object or the
  process, \<open>Monitis.checksum\<close> returns the base64 text of the HMAC-SHA1, under the secret
  key, of the string made of the other entries sorted by key, each key immediately
  followed by the text of its value; the module function \<open>checksum\<close> returns the same
  whenever the process has a secret key to resolve. Two dicts with the same entries
  give the same result. The signature has 28 characters of the base64 alphabet; a
  secret key that is longer, or has a character outside that alphabet, does not occur
  in it.
\<close>

theorem checksum_signature:
  assumes "distinct (map fst kwargs)"
  shows
  "(map_of kwargs ''secretkey'' = Some (PyStr key) \<longrightarrow>
      Monitis_checksum self kwargs w
        = Inr (signature key ((map_of kwargs)(''secretkey'' := None)))
      \<and> (\<forall>dflt. resolve_secretkey w = Inr dflt \<longrightarrow>
            checksum kwargs w = Inr (signature key ((map_of kwargs)(''secretkey'' := None)))))
   \<and> (map_of kwargs ''secretkey'' = None \<longrightarrow>
      (py_or (self_secretkey self) (resolve_secretkey w) = Inr key \<longrightarrow>
         Monitis_checksum self kwargs w = Inr (signature key (map_of kwargs)))
      \<and> (resolve_secretkey w = Inr key \<longrightarrow>
         checksum kwargs w = Inr (signature key (map_of kwargs))))
   \<and> (\<forall>kwargs'. distinct (map fst kwargs') \<and> map_of kwargs' = map_of kwargs \<longrightarrow>
         Monitis_checksum self kwargs' w = Monitis_checksum self kwargs w
         \<and> checksum kwargs' w = checksum kwargs w)
   \<and> length (signature key m) = 28
   \<and> (28 < length key \<or> \<not> set key \<subseteq> b64_chars \<longrightarrow> \<not> sublist key (signature key m))"
proof -
  have a: "map_of kwargs ''secretkey'' = Some (PyStr key) \<longrightarrow>
      Monitis_checksum self kwargs w
        = Inr (signature key ((map_of kwargs)(''secretkey'' := None)))
      \<and> (\<forall>dflt. resolve_secretkey w = Inr dflt \<longrightarrow>
            checksum kwargs w = Inr (signature key ((map_of kwargs)(''secretkey'' := None))))"
    by (simp add: Monitis_checksum_map [OF assms] checksum_map [OF assms] sign_def signature_def)
  have b: "map_of kwargs ''secretkey'' = None \<longrightarrow>
      (py_or (self_secretkey self) (resolve_secretkey w) = Inr key \<longrightarrow>
         Monitis_checksum self kwargs w = Inr (signature key (map_of kwargs)))
      \<and> (resolve_secretkey w = Inr key \<longrightarrow>
         checksum kwargs w = Inr (signature key (map_of kwargs)))"
    by (simp add: Monitis_checksum_map [OF assms] checksum_map [OF assms] sign_def signature_def
          map_of_delete_None)
  have c: "\<forall>kwargs'. distinct (map fst kwargs') \<and> map_of kwargs' = map_of kwargs \<longrightarrow>
         Monitis_checksum self kwargs' w = Monitis_checksum self kwargs w
         \<and> checksum kwargs' w = checksum kwargs w"
  proof (intro allI impI)
    fix kwargs' :: dict
    assume "distinct (map fst kwargs') \<and> map_of kwargs' = map_of kwargs"
    then have d': "distinct (map fst kwargs')" and e: "map_of kwargs' = map_of kwargs"
      by simp_all
    show "Monitis_checksum self kwargs' w = Monitis_checksum self kwargs w
         \<and> checksum kwargs' w = checksum kwargs w"
      by (simp only: Monitis_checksum_map [OF d'] Monitis_checksum_map [OF assms]
            checksum_map [OF d'] checksum_map [OF assms] e simp_thms)
  qed
  have d: "28 < length key \<or> \<not> set key \<subseteq> b64_chars \<longrightarrow> \<not> sublist key (signature key m)"
    using signature_hides by blast
  from a b c d length_signature show ?thesis by blast
qed

theorem checksum_signature_witness:
  "distinct (map fst ((''secretkey'', PyStr ''s3cr3t!'') # test_vector))
   \<and> map_of ((''secretkey'', PyStr ''s3cr3t!'') # test_vector) ''secretkey'' = Some (PyStr ''s3cr3t!'')
   \<and> Monitis_checksum blank_object ((''secretkey'', PyStr ''s3cr3t!'') # test_vector) keyed_process
       = Inr (signature ''s3cr3t!'' (map_of test_vector))
   \<and> checksum ((''secretkey'', PyStr ''s3cr3t!'') # test_vector) keyed_process
       = Inr (signature ''s3cr3t!'' (map_of test_vector))
   \<and> checksum test_vector keyed_process = Inr (signature ''shared'' (map_of test_vector))
   \<and> checksum (rev test_vector) keyed_process = checksum test_vector keyed_process
   \<and> signed_text (map_of test_vector) = ''actiontestapikeyabcversion2''
   \<and> \<not> set ''s3cr3t!'' \<subseteq> b64_chars
   \<and> \<not> sublist ''s3cr3t!'' (signature ''s3cr3t!'' (map_of test_vector))"
proof -
  let ?kw = "(''secretkey'', PyStr ''s3cr3t!'') # test_vector"
  have d: "distinct (map fst ?kw)" by (simp add: test_vector_def)
  have s: "map_of ?kw ''secretkey'' = Some (PyStr ''s3cr3t!'')" by simp
  have m: "(map_of ?kw)(''secretkey'' := None) = map_of test_vector"
    by (rule ext) (simp add: test_vector_def)
  have n: "\<not> set ''s3cr3t!'' \<subseteq> b64_chars"
    by (simp add: b64_chars_def b64_alphabet_def)
  have r: "distinct (map fst (rev test_vector)) \<and> map_of (rev test_vector) = map_of test_vector"
    by (auto simp: test_vector_def fun_eq_iff)
  have t: "signed_text (map_of test_vector) = ''actiontestapikeyabcversion2''"
    using param_string_signed_text [OF test_vector_distinct]
    by (simp add: param_string_def test_vector_def)
  note thm1 = checksum_signature [OF d, where key = "''s3cr3t!''" and self = blank_object
      and w = keyed_process and m = "map_of test_vector"]
  note thm2 = checksum_signature [OF test_vector_distinct, where key = "''shared''"
      and self = blank_object and w = keyed_process and m = "map_of test_vector"]
  have 1: "Monitis_checksum blank_object ?kw keyed_process
       = Inr (signature ''s3cr3t!'' (map_of test_vector))"
    using thm1 s m by simp
  have 2: "checksum ?kw keyed_process = Inr (signature ''s3cr3t!'' (map_of test_vector))"
    using thm1 s m keyed_secret by simp
  have 3: "checksum test_vector keyed_process = Inr (signature ''shared'' (map_of test_vector))"
    using thm2 test_vector_no_secret keyed_secret by simp
  have 4: "checksum (rev test_vector) keyed_process = checksum test_vector keyed_process"
    using thm2 r by blast
  have 5: "\<not> sublist ''s3cr3t!'' (signature ''s3cr3t!'' (map_of test_vector))"
    using thm1 n by blast
  from d s 1 2 3 4 5 t n show ?thesis by blast
qed

subsection \<open>The two implementations of checksum\<close>

lemma checksum_agree:
  assumes "resolve_secretkey w = Inr dflt"
  shows "checksum kwargs w = Monitis_checksum self kwargs w
         \<or> map_of kwargs ''secretkey'' = None"
  using assms
  by (cases "map_of kwargs ''secretkey''")
     (simp_all add: checksum_def Monitis_checksum_def dict_pop_def Monitis_param_string_eq)


lemma test_vector_keyed_distinct: "distinct (map fst ((''secretkey'', v) # test_vector))"
  by (simp add: test_vector_def)

lemma test_vector_keyed_rest:
  "(map_of ((''secretkey'', v) # test_vector))(''secretkey'' := None) = map_of test_vector"
  by (rule ext) (simp add: test_vector_def)

text \<open>
  C10. In a process without a class-level or environment secret key, with the secret
  key given in the call, the module function raises (the default argument of \<open>pop\<close>
  is resolved first) while the method returns the signature; \<open>post\<close> with both keys
  given raises for the same reason.
\<close>

theorem checksum_eager_default:
  "checksum ((''secretkey'', PyStr ''secret'') # test_vector) bare_process
     = Inl (MonitisError ''The Monitis secret key is required'')
   \<and> Monitis_checksum blank_object ((''secretkey'', PyStr ''secret'') # test_vector) bare_process
     = Inr (signature ''secret'' (map_of test_vector))
   \<and> post (Some ''abc'') (Some ''secret'') (Some ''test'') (PyInt 2) None [] bare_process
     = (Inl (MonitisError ''The Monitis secret key is required''), bare_process)"
proof -
  have 1: "checksum ((''secretkey'', PyStr ''secret'') # test_vector) bare_process
     = Inl (MonitisError ''The Monitis secret key is required'')"
    by (simp add: checksum_def bare_secret)
  have 2: "Monitis_checksum blank_object ((''secretkey'', PyStr ''secret'') # test_vector) bare_process
     = Inr (signature ''secret'' (map_of test_vector))"
    by (simp add: Monitis_checksum_map [OF test_vector_keyed_distinct]
          map_of_delete_None [OF test_vector_no_secret] sign_def signature_def)
  have 3: "post (Some ''abc'') (Some ''secret'') (Some ''test'') (PyInt 2) None [] bare_process
     = (Inl (MonitisError ''The Monitis secret key is required''), bare_process)"
    by (simp add: post_def dict_pop_def checksum_def bare_secret)
  from 1 2 3 show ?thesis by blast
qed

subsection \<open>Sensitivity of the signature\<close>





subsection \<open>base64 is injective\<close>































subsection \<open>post and Monitis.post: the request\<close>

lemma sign_PyStr: "sign (PyStr key) s = Inr (b64encode (hmac_sha1 key s))"
  by (simp add: sign_def)

lemma checksum_given:
  "checksum (AList.update ''secretkey'' (PyStr key) post_args) w
   = (case resolve_secretkey w of
        Inl e \<Rightarrow> Inl e
      | Inr dflt \<Rightarrow> Inr (b64encode (hmac_sha1 key (param_string (AList.delete ''secretkey'' post_args)))))"
  by (simp add: checksum_def dict_pop_def update_conv' delete_update_same sign_PyStr
        split: sum.splits)

lemma Monitis_checksum_cases:
  "Monitis_checksum self post_args w = Inr c \<Longrightarrow>
   \<exists>key. c = b64encode (hmac_sha1 key (param_string (AList.delete ''secretkey'' post_args)))"
proof (cases "map_of post_args ''secretkey''")
  case None
  assume c: "Monitis_checksum self post_args w = Inr c"
  from None have "''secretkey'' \<notin> fst ` set post_args" by (simp add: map_of_eq_None_iff)
  then have "AList.delete ''secretkey'' post_args = post_args" by (rule delete_id)
  with c None show ?thesis
    by (auto simp: Monitis_checksum_def Monitis_param_string_eq sign_PyStr split: sum.splits)
next
  case (Some v)
  assume c: "Monitis_checksum self post_args w = Inr c"
  with Some show ?thesis
    by (cases v) (auto simp: Monitis_checksum_def Monitis_param_string_eq sign_def)
qed

lemma Monitis_post_bare:
  "Monitis_post keyed_object [] bare_process
      = (Inr (Body ''not json''),
         bare_process\<lparr>sent := [POST default_url
            [(''apikey'', PyStr ''abc''), (''version'', PyStr ''2''),
             (''timestamp'', PyStr ''2011-10-01 12:30:05''),
             (''checksum'', PyStr (b64encode (hmac_sha1 ''secret''
                 ''apikeyabctimestamp2011-10-01 12:30:05version2'')))]]\<rparr>)"
proof -
  have c: "Monitis_checksum keyed_object
      [(''apikey'', PyStr ''abc''), (''version'', PyStr ''2''),
       (''timestamp'', PyStr ''2011-10-01 12:30:05'')] bare_process
      = Inr (b64encode (hmac_sha1 ''secret'' ''apikeyabctimestamp2011-10-01 12:30:05version2''))"
    by (simp add: Monitis_checksum_def Monitis_param_string_eq param_string_def sign_PyStr
          keyed_object_def blank_object_def)
  have s: "sent bare_process = []" by (simp add: bare_process_def)
  show ?thesis
    using c
    by (simp add: Monitis_post_def timestamp_ex s)
       (simp add: keyed_object_def blank_object_def bare_process_def)
qed

text \<open>
  \<open>Monitis.post\<close> without keyword arguments succeeds, and the parameters it submits
  have no \<open>action\<close>.
\<close>

theorem Monitis_post_no_action_counterexample:
  "fst (Monitis_post keyed_object [] bare_process) = Inr (Body ''not json'')
   \<and> sent (snd (Monitis_post keyed_object [] bare_process))
       = [POST default_url
            [(''apikey'', PyStr ''abc''), (''version'', PyStr ''2''),
             (''timestamp'', PyStr ''2011-10-01 12:30:05''),
             (''checksum'', PyStr (b64encode (hmac_sha1 ''secret''
                 ''apikeyabctimestamp2011-10-01 12:30:05version2'')))]]
   \<and> map_of [(''apikey'', PyStr ''abc''), (''version'', PyStr ''2''),
             (''timestamp'', PyStr ''2011-10-01 12:30:05''),
             (''checksum'', PyStr (b64encode (hmac_sha1 ''secret''
                 ''apikeyabctimestamp2011-10-01 12:30:05version2'')))] ''action'' = None"
  by (simp add: Monitis_post_bare)

text \<open>
  C2, amended. A successful call of the function \<open>post\<close> submits one request, whose
  parameters are the set built for the call, holding \<open>apikey\<close>, \<open>action\<close>, \<open>version\<close> and
  \<open>timestamp\<close>, with \<open>checksum\<close> added: the signature of that set without any
  \<open>secretkey\<close> entry. A successful call of \<open>Monitis.post\<close> does the same, except that
  the set holds an \<open>action\<close> only if the caller gave one as a keyword argument.
\<close>

theorem post_request_parameters:
  "(post apikey secretkey action version url' kwargs w = (Inr r, w') \<longrightarrow>
      (\<exists>a sk act post_args.
         py_or apikey (resolve_apikey w) = Inr a \<and> py_or secretkey (resolve_secretkey w) = Inr sk
         \<and> action = Some act \<and> act \<noteq> []
         \<and> map_of post_args ''apikey'' = Some (PyStr a)
         \<and> map_of post_args ''action'' = Some (PyStr act)
         \<and> map_of post_args ''version'' = Some version
         \<and> map_of post_args ''timestamp'' = Some (PyStr (timestamp w))
         \<and> sent w' = sent w @ [POST (py_or_str url' (api_url w))
              (AList.update ''checksum''
                 (PyStr (b64encode (hmac_sha1 sk
                    (param_string (AList.delete ''secretkey'' post_args))))) post_args)]))
   \<and> (Monitis_post self kwargs w = (Inr r, w') \<longrightarrow>
      (\<exists>key post_args.
         map_of post_args ''apikey'' = Some (py_opt (self_apikey self))
         \<and> map_of post_args ''action'' = map_of kwargs ''action''
         \<and> map_of post_args ''version'' = Some (self_version self)
         \<and> map_of post_args ''timestamp'' = Some (PyStr (timestamp w))
         \<and> sent w' = sent w @ [POST (self_url self)
              (AList.update ''checksum''
                 (PyStr (b64encode (hmac_sha1 key
                    (param_string (AList.delete ''secretkey'' post_args))))) post_args)]))"
proof (intro conjI impI)
  assume p: "post apikey secretkey action version url' kwargs w = (Inr r, w')"
  obtain raw kwargs1 where pop: "dict_pop ''_raw'' (PyBool False) kwargs = (raw, kwargs1)"
    by (cases "dict_pop ''_raw'' (PyBool False) kwargs")
  from p obtain a where a: "py_or apikey (resolve_apikey w) = Inr a"
    by (cases "py_or apikey (resolve_apikey w)") (auto simp: post_def)
  from p a obtain sk where sk: "py_or secretkey (resolve_secretkey w) = Inr sk"
    by (cases "py_or secretkey (resolve_secretkey w)") (auto simp: post_def)
  from p a sk pop obtain act where act: "action = Some act" "act \<noteq> []"
    by (cases action) (auto simp: post_def split: if_splits)
  let ?post_args = "AList.update ''timestamp'' (PyStr (timestamp w))
                     (AList.update ''version'' version
                       (AList.update ''action'' (PyStr act)
                         (AList.update ''apikey'' (PyStr a) kwargs1)))"
  from p a sk pop act obtain dflt where d: "resolve_secretkey w = Inr dflt"
    by (cases "resolve_secretkey w") (auto simp: post_def checksum_given)
  have m: "map_of ?post_args ''apikey'' = Some (PyStr a)
         \<and> map_of ?post_args ''action'' = Some (PyStr act)
         \<and> map_of ?post_args ''version'' = Some version
         \<and> map_of ?post_args ''timestamp'' = Some (PyStr (timestamp w))"
    by (simp add: update_conv')
  from p a sk pop act d
  have "sent w' = sent w @ [POST (py_or_str url' (api_url w))
              (AList.update ''checksum''
                 (PyStr (b64encode (hmac_sha1 sk
                    (param_string (AList.delete ''secretkey'' ?post_args))))) ?post_args)]"
    by (auto simp: post_def checksum_given Let_def split: sum.splits if_splits)
  with a sk act m
  show "\<exists>a sk act post_args.
         py_or apikey (resolve_apikey w) = Inr a \<and> py_or secretkey (resolve_secretkey w) = Inr sk
         \<and> action = Some act \<and> act \<noteq> []
         \<and> map_of post_args ''apikey'' = Some (PyStr a)
         \<and> map_of post_args ''action'' = Some (PyStr act)
         \<and> map_of post_args ''version'' = Some version
         \<and> map_of post_args ''timestamp'' = Some (PyStr (timestamp w))
         \<and> sent w' = sent w @ [POST (py_or_str url' (api_url w))
              (AList.update ''checksum''
                 (PyStr (b64encode (hmac_sha1 sk
                    (param_string (AList.delete ''secretkey'' post_args))))) post_args)]"
    by blast
next
  assume p: "Monitis_post self kwargs w = (Inr r, w')"
  let ?post_args = "AList.update ''timestamp'' (PyStr (timestamp w))
                     (AList.update ''version'' (self_version self)
                       (AList.update ''apikey'' (py_opt (self_apikey self)) kwargs))"
  from p obtain c where c: "Monitis_checksum self ?post_args w = Inr c"
    by (cases "Monitis_checksum self ?post_args w") (auto simp: Monitis_post_def)
  then obtain key where
    key: "c = b64encode (hmac_sha1 key (param_string (AList.delete ''secretkey'' ?post_args)))"
    using Monitis_checksum_cases by blast
  have m: "map_of ?post_args ''apikey'' = Some (py_opt (self_apikey self))
         \<and> map_of ?post_args ''action'' = map_of kwargs ''action''
         \<and> map_of ?post_args ''version'' = Some (self_version self)
         \<and> map_of ?post_args ''timestamp'' = Some (PyStr (timestamp w))"
    by (simp add: update_conv')
  from p c have "sent w' = sent w @ [POST (self_url self)
      (AList.update ''checksum'' (PyStr c) ?post_args)]"
    by (auto simp: Monitis_post_def Let_def split: sum.splits)
  with key m
  show "\<exists>key post_args.
         map_of post_args ''apikey'' = Some (py_opt (self_apikey self))
         \<and> map_of post_args ''action'' = map_of kwargs ''action''
         \<and> map_of post_args ''version'' = Some (self_version self)
         \<and> map_of post_args ''timestamp'' = Some (PyStr (timestamp w))
         \<and> sent w' = sent w @ [POST (self_url self)
              (AList.update ''checksum''
                 (PyStr (b64encode (hmac_sha1 key
                    (param_string (AList.delete ''secretkey'' post_args))))) post_args)]"
    by blast
qed

lemma post_raw_keyed:
  "fst (post (Some ''abc'') (Some ''secret'') (Some ''test'') (PyInt 2) None
          [(''_raw'', PyBool True)] keyed_process) = Inr (Response ''not json'')"
  by (simp add: post_def dict_pop_def checksum_given keyed_secret Let_def)
     (simp add: keyed_process_def bare_process_def)

theorem post_request_parameters_witness:
  "fst (post (Some ''abc'') (Some ''secret'') (Some ''test'') (PyInt 2) None
          [(''_raw'', PyBool True)] keyed_process) = Inr (Response ''not json'')
   \<and> (\<exists>sk post_args.
         map_of post_args ''apikey'' = Some (PyStr ''abc'')
         \<and> map_of post_args ''action'' = Some (PyStr ''test'')
         \<and> map_of post_args ''version'' = Some (PyInt 2)
         \<and> map_of post_args ''timestamp'' = Some (PyStr (timestamp keyed_process))
         \<and> sent (snd (post (Some ''abc'') (Some ''secret'') (Some ''test'') (PyInt 2) None
                          [(''_raw'', PyBool True)] keyed_process))
             = sent keyed_process @ [POST (py_or_str None (api_url keyed_process))
                 (AList.update ''checksum''
                    (PyStr (b64encode (hmac_sha1 sk
                       (param_string (AList.delete ''secretkey'' post_args))))) post_args)])
   \<and> fst (Monitis_post keyed_object [] bare_process) = Inr (Body ''not json'')
   \<and> (\<exists>key post_args.
         map_of post_args ''action'' = map_of [] ''action''
         \<and> sent (snd (Monitis_post keyed_object [] bare_process))
             = sent bare_process @ [POST (self_url keyed_object)
                 (AList.update ''checksum''
                    (PyStr (b64encode (hmac_sha1 key
                       (param_string (AList.delete ''secretkey'' post_args))))) post_args)])"
proof -
  let ?p = "post (Some ''abc'') (Some ''secret'') (Some ''test'') (PyInt 2) None
          [(''_raw'', PyBool True)] keyed_process"
  let ?m = "Monitis_post keyed_object [] bare_process"
  have 1: "?p = (Inr (Response ''not json''), snd ?p)"
    using post_raw_keyed by (metis prod.collapse)
  have 2: "?m = (Inr (Body ''not json''), snd ?m)"
    by (simp add: Monitis_post_bare)
  have a: "py_or (Some ''abc'') (resolve_apikey keyed_process) = Inr ''abc''" by simp
  from 1 a post_request_parameters [where apikey = "Some ''abc''" and secretkey = "Some ''secret''"
      and action = "Some ''test''" and version = "PyInt 2" and url' = None
      and kwargs = "[(''_raw'', PyBool True)]" and w = keyed_process
      and r = "Response ''not json''" and w' = "snd ?p"]
  have 3: "\<exists>sk post_args.
         map_of post_args ''apikey'' = Some (PyStr ''abc'')
         \<and> map_of post_args ''action'' = Some (PyStr ''test'')
         \<and> map_of post_args ''version'' = Some (PyInt 2)
         \<and> map_of post_args ''timestamp'' = Some (PyStr (timestamp keyed_process))
         \<and> sent (snd ?p)
             = sent keyed_process @ [POST (py_or_str None (api_url keyed_process))
                 (AList.update ''checksum''
                    (PyStr (b64encode (hmac_sha1 sk
                       (param_string (AList.delete ''secretkey'' post_args))))) post_args)]"
    by (metis option.inject sum.inject(2))
  from 2 post_request_parameters [where self = keyed_object and kwargs = "[]" and w = bare_process
      and r = "Body ''not json''" and w' = "snd ?m"]
  have 4: "\<exists>key post_args.
         map_of post_args ''action'' = map_of [] ''action''
         \<and> sent (snd ?m)
             = sent bare_process @ [POST (self_url keyed_object)
                 (AList.update ''checksum''
                    (PyStr (b64encode (hmac_sha1 key
                       (param_string (AList.delete ''secretkey'' post_args))))) post_args)]"
    by blast
  have 5: "fst ?m = Inr (Body ''not json'')" by (simp add: Monitis_post_bare)
  from post_raw_keyed 5 3 4 show ?thesis by blast
qed

subsection \<open>Monitis.post and post\<close>

















end
